theory Spec2Isabelle
  imports Main "HOL-Library.AList"
begin

section \<open>Byte strings, base64 and decimal formatting\<close>

text \<open>
  A Go \<^verbatim>\<open>string\<close> and a \<^verbatim>\<open>[]byte\<close> are sequences of bytes; both are modelled as
  \<^typ>\<open>string\<close> (a list of 8-bit characters), so the conversion \<^verbatim>\<open>[]byte(s)\<close> is the
  identity.
\<close>

type_synonym bytes = string

text \<open>
  \<^verbatim>\<open>base64.StdEncoding.EncodeToString\<close> of the Go standard library (RFC 4648, alphabet
  \<^verbatim>\<open>A-Za-z0-9+/\<close>, padding \<^verbatim>\<open>=\<close>): three bytes become a 24-bit value whose four 6-bit
  groups index the alphabet; a remainder of one or two bytes is padded.
\<close>

definition encodeStd :: string where
  "encodeStd = ''ABCDEFGHIJKLMNOPQRSTUVWXYZabcdefghijklmnopqrstuvwxyz0123456789+/''"

definition enc6 :: "nat \<Rightarrow> char" where
  "enc6 v = encodeStd ! (v mod 64)"

fun EncodeToString :: "bytes \<Rightarrow> string" where
  "EncodeToString (a # b # c # rest) =
     (let v = of_char a * 65536 + of_char b * 256 + of_char c
      in [enc6 (v div 262144), enc6 (v div 4096), enc6 (v div 64), enc6 v])
     @ EncodeToString rest"
| "EncodeToString [a, b] =
     (let v = of_char a * 65536 + of_char b * 256
      in [enc6 (v div 262144), enc6 (v div 4096), enc6 (v div 64), CHR ''=''])"
| "EncodeToString [a] =
     (let v = of_char a * 65536
      in [enc6 (v div 262144), enc6 (v div 4096), CHR ''='', CHR ''=''])"
| "EncodeToString [] = []"

text \<open>
  The verb \<^verbatim>\<open>%d\<close> of \<^verbatim>\<open>fmt.Sprintf\<close> on an \<^verbatim>\<open>int\<close>: base 10, a minus sign for a
  negative value, no padding.
\<close>

definition digit :: "nat \<Rightarrow> char" where
  "digit n = ''0123456789'' ! n"

fun FormatUint :: "nat \<Rightarrow> string" where
  "FormatUint n = (if n < 10 then [digit n] else FormatUint (n div 10) @ [digit (n mod 10)])"

declare FormatUint.simps [simp del]

definition FormatInt :: "int \<Rightarrow> string" where
  "FormatInt i = (if i < 0 then CHR ''-'' # FormatUint (nat (- i)) else FormatUint (nat i))"

text \<open>
  Go's \<^verbatim>\<open>int\<close> is a 64-bit two's complement integer on the platforms the service
  targets; \<^verbatim>\<open>x++\<close> wraps around silently. Values are kept as \<^typ>\<open>int\<close> and the
  wrap-around is written out.
\<close>

definition int64 :: "int \<Rightarrow> int" where
  "int64 x = (x + 2 ^ 63) mod 2 ^ 64 - 2 ^ 63"

section \<open>Errors\<close>

text \<open>
  Go errors are values built by \<^verbatim>\<open>fmt.Errorf\<close>: \<open>Errorf msg\<close> is an error with the
  finished message, \<open>Wrapf prefix err\<close> is \<^verbatim>\<open>fmt.Errorf(prefix + "%w", err)\<close>.
  \<open>Error\<close> is the method \<^verbatim>\<open>err.Error()\<close>.
\<close>

datatype error = Errorf string | Wrapf string error

fun Error :: "error \<Rightarrow> string" where
  "Error (Errorf msg) = msg"
| "Error (Wrapf prefix err) = prefix @ Error err"

section \<open>Package crypto: signers (src/crypto/signer.go)\<close>

text \<open>
  The primitives of Go's standard library (\<^verbatim>\<open>sha256.Sum256\<close>, \<^verbatim>\<open>rsa.SignPKCS1v15\<close>,
  \<^verbatim>\<open>ecdsa.SignASN1\<close>) and the two key generators of this package, whose file is not
  part of the sources at hand, are parameters of the model. Every primitive that reads
  \<^verbatim>\<open>rand.Reader\<close> takes the bytes it reads there as an argument. Key material is an
  opaque byte string.
\<close>

type_synonym entropy = bytes

record KeyPair =
  Public :: bytes
  Private :: bytes

record primitives =
  Sum256 :: "bytes \<Rightarrow> bytes"
  SignPKCS1v15 :: "entropy \<Rightarrow> bytes \<Rightarrow> bytes \<Rightarrow> error + bytes"
  SignASN1 :: "entropy \<Rightarrow> bytes \<Rightarrow> bytes \<Rightarrow> error + bytes"
  RSAGenerator_Generate :: "entropy \<Rightarrow> error + KeyPair"
  ECCGenerator_Generate :: "entropy \<Rightarrow> error + KeyPair"

text \<open>The interface \<^verbatim>\<open>Signer\<close> with its two implementations, each holding a private key.\<close>

datatype Signer = RSASigner bytes | ECDSASigner bytes

definition NewRSASigner :: "bytes \<Rightarrow> Signer" where
  "NewRSASigner privateKey = RSASigner privateKey"

definition NewECDSASigner :: "bytes \<Rightarrow> Signer" where
  "NewECDSASigner privateKey = ECDSASigner privateKey"

fun Sign :: "primitives \<Rightarrow> entropy \<Rightarrow> Signer \<Rightarrow> bytes \<Rightarrow> error + bytes" where
  "Sign P rnd (RSASigner privateKey) dataToBeSigned =
     SignPKCS1v15 P rnd privateKey (Sum256 P dataToBeSigned)"
| "Sign P rnd (ECDSASigner privateKey) dataToBeSigned =
     SignASN1 P rnd privateKey (Sum256 P dataToBeSigned)"

section \<open>Data model (src/domain/device.go, src/unnamed/part\_001, src/model/sign.go)\<close>

record CreateDeviceOptions =
  ID :: string
  Label :: string
  Algorithm :: string

record SignDataOptions =
  DeviceID :: string
  Data :: string

record SignDataResponse =
  Signature :: string
  SignedData :: string

record SignatureDevice =
  ID :: string
  Label :: string
  Algorithm :: string
  SignatureCounter :: int
  LastSignature :: string
  PublicKey :: bytes
  PrivateKey :: bytes
  Signer :: Signer

section \<open>Pointers and the in-memory storage (src/persistence/inmemory.go)\<close>

text \<open>
  The service and the storage pass devices as \<^verbatim>\<open>*SignatureDevice\<close>: the map of the
  storage, the value returned by \<^verbatim>\<open>GetDevice\<close> and the elements of the slice returned
  by \<^verbatim>\<open>GetAllDevices\<close> all point to the same struct. The model therefore has an
  explicit heap: a pointer is an address, \<open>heap\<close> maps an address to the struct stored
  there, \<open>fresh\<close> is the next unused address. The Go map \<^verbatim>\<open>devices\<close> is an association
  list from identifiers to addresses, read with \<^const>\<open>map_of\<close> and written with
  \<^const>\<open>AList.update\<close>; the order of the list stands for the unspecified iteration
  order of the Go map.

  The mutexes make every exported operation atomic; each operation is modelled as
  one function from the state before to the state after.
\<close>

type_synonym addr = nat

record Store =
  heap :: "addr \<Rightarrow> SignatureDevice"
  fresh :: addr
  devices :: "(string \<times> addr) list"

text \<open>\<^verbatim>\<open>&SignatureDevice{...}\<close>: the struct is placed at a fresh address.\<close>

definition new :: "SignatureDevice \<Rightarrow> Store \<Rightarrow> addr \<times> Store" where
  "new d st = (fresh st, st\<lparr>heap := (heap st)(fresh st := d), fresh := Suc (fresh st)\<rparr>)"

text \<open>An assignment to fields of the struct behind a pointer.\<close>

definition assign :: "addr \<Rightarrow> (SignatureDevice \<Rightarrow> SignatureDevice) \<Rightarrow> Store \<Rightarrow> Store" where
  "assign p f st = st\<lparr>heap := (heap st)(p := f (heap st p))\<rparr>"

text \<open>The interface \<^verbatim>\<open>DeviceStorage\<close> (src/domain/storage.go).\<close>

record DeviceStorage =
  Save :: "addr \<Rightarrow> Store \<Rightarrow> error option \<times> Store"
  Update :: "addr \<Rightarrow> Store \<Rightarrow> error option \<times> Store"
  GetDevice :: "string \<Rightarrow> Store \<Rightarrow> error + addr"
  GetAllDevices :: "Store \<Rightarrow> error + addr list"

text \<open>
  The empty storage: no struct has been placed at any address, so what the heap holds
  is left unspecified everywhere, and the map is empty.
\<close>

definition NewInMemoryStorage :: Store where
  "NewInMemoryStorage = \<lparr>heap = (\<lambda>_. undefined), fresh = 0, devices = []\<rparr>"

text \<open>
  src/persistence/inmemory.go declares the storage twice. The first declaration
  (lines 1 to 69, over \<^verbatim>\<open>model.SignatureDevice\<close>) refuses to save an identifier that is
  present.
\<close>

definition InMemoryStorage_Save :: "addr \<Rightarrow> Store \<Rightarrow> error option \<times> Store" where
  "InMemoryStorage_Save device st =
     (if map_of (devices st) (SignatureDevice.ID (heap st device)) \<noteq> None
      then (Some (Errorf (''device '' @ SignatureDevice.ID (heap st device) @ '' already exists'')), st)
      else (None, st\<lparr>devices :=
              AList.update (SignatureDevice.ID (heap st device)) device (devices st)\<rparr>))"

definition InMemoryStorage_Update :: "addr \<Rightarrow> Store \<Rightarrow> error option \<times> Store" where
  "InMemoryStorage_Update device st =
     (None, st\<lparr>devices :=
        AList.update (SignatureDevice.ID (heap st device)) device (devices st)\<rparr>)"

definition InMemoryStorage_GetDevice :: "string \<Rightarrow> Store \<Rightarrow> error + addr" where
  "InMemoryStorage_GetDevice ident st =
     (case map_of (devices st) ident of
        None \<Rightarrow> Inl (Errorf ''device not found'')
      | Some device \<Rightarrow> Inr device)"

definition InMemoryStorage_GetAllDevices :: "Store \<Rightarrow> error + addr list" where
  "InMemoryStorage_GetAllDevices st = Inr (map snd (devices st))"

definition InMemoryStorage :: DeviceStorage where
  "InMemoryStorage =
     \<lparr>Save = InMemoryStorage_Save, Update = InMemoryStorage_Update,
      GetDevice = InMemoryStorage_GetDevice, GetAllDevices = InMemoryStorage_GetAllDevices\<rparr>"

text \<open>
  The second declaration (lines 71 to 124, over \<^verbatim>\<open>domain.SignatureDevice\<close>) differs in
  \<^verbatim>\<open>Save\<close> only, which stores without looking.
\<close>

definition InMemoryStorage_Save_domain :: "addr \<Rightarrow> Store \<Rightarrow> error option \<times> Store" where
  "InMemoryStorage_Save_domain device st =
     (None, st\<lparr>devices :=
        AList.update (SignatureDevice.ID (heap st device)) device (devices st)\<rparr>)"

definition InMemoryStorage_domain :: DeviceStorage where
  "InMemoryStorage_domain =
     \<lparr>Save = InMemoryStorage_Save_domain, Update = InMemoryStorage_Update,
      GetDevice = InMemoryStorage_GetDevice, GetAllDevices = InMemoryStorage_GetAllDevices\<rparr>"

section \<open>The service (src/unnamed/part\_002 and src/domain/service.go)\<close>

text \<open>
  \<^verbatim>\<open>CreateDevice\<close> reads the same in both files. Lines 57 to 74 of
  src/domain/service.go (58 to 75 of part\_002), which follow the \<^verbatim>\<open>switch\<close>, are the
  function \<open>persist\<close>; after the guard on the algorithm the \<^verbatim>\<open>switch\<close> has exactly the
  two cases written here.
\<close>

definition persist ::
  "DeviceStorage \<Rightarrow> CreateDeviceOptions \<Rightarrow> bytes \<Rightarrow> bytes \<Rightarrow> Signer \<Rightarrow> Store
    \<Rightarrow> (error + addr) \<times> Store" where
  "persist storage opts privateKey publicKey signer st =
     (let initialSignature = EncodeToString (CreateDeviceOptions.ID opts);
          (device, st1) = new \<lparr>ID = CreateDeviceOptions.ID opts,
                               Label = CreateDeviceOptions.Label opts,
                               Algorithm = CreateDeviceOptions.Algorithm opts,
                               SignatureCounter = 0,
                               LastSignature = initialSignature,
                               PublicKey = publicKey,
                               PrivateKey = privateKey,
                               Signer = signer\<rparr> st;
          (err, st2) = Save storage device st1
      in case err of
           Some e \<Rightarrow> (Inl (Wrapf ''failed to save device: '' e), st2)
         | None \<Rightarrow> (Inr device, st2))"

definition CreateDevice ::
  "DeviceStorage \<Rightarrow> primitives \<Rightarrow> entropy \<Rightarrow> CreateDeviceOptions \<Rightarrow> Store
    \<Rightarrow> (error + addr) \<times> Store" where
  "CreateDevice storage P rnd opts st =
     (if CreateDeviceOptions.Algorithm opts \<noteq> ''RSA'' \<and> CreateDeviceOptions.Algorithm opts \<noteq> ''ECC''
      then (Inl (Errorf (''invalid algorithm: '' @ CreateDeviceOptions.Algorithm opts)), st)
      else if CreateDeviceOptions.Algorithm opts = ''RSA''
      then (case RSAGenerator_Generate P rnd of
              Inl err \<Rightarrow> (Inl (Wrapf ''failed to generate RSA key pair: '' err), st)
            | Inr keyPair \<Rightarrow>
                persist storage opts (Private keyPair) (Public keyPair)
                  (NewRSASigner (Private keyPair)) st)
      else (case ECCGenerator_Generate P rnd of
              Inl err \<Rightarrow> (Inl (Wrapf ''failed to generate ECC key pair: '' err), st)
            | Inr keyPair \<Rightarrow>
                persist storage opts (Private keyPair) (Public keyPair)
                  (NewECDSASigner (Private keyPair)) st))"

text \<open>
  \<^verbatim>\<open>SignData\<close> of src/unnamed/part\_002 (lines 81 to 111): the payload is built from the
  counter as stored, the counter is incremented after the signer has succeeded.
\<close>

definition SignData ::
  "DeviceStorage \<Rightarrow> primitives \<Rightarrow> entropy \<Rightarrow> SignDataOptions \<Rightarrow> Store
    \<Rightarrow> (error + SignDataResponse) \<times> Store" where
  "SignData storage P rnd opts st =
     (case GetDevice storage (DeviceID opts) st of
        Inl err \<Rightarrow> (Inl (Wrapf ''failed to find device: '' err), st)
      | Inr device \<Rightarrow>
          (let counter = SignatureCounter (heap st device);
               dataToBeSigned =
                 FormatInt counter @ ''_'' @ Data opts @ ''_'' @ LastSignature (heap st device)
           in case Sign P rnd (Signer (heap st device)) dataToBeSigned of
                Inl err \<Rightarrow> (Inl (Wrapf ''failed to sign data: '' err), st)
              | Inr signature \<Rightarrow>
                  (let st1 = assign device
                               (\<lambda>d. d\<lparr>SignatureCounter := int64 (SignatureCounter d + 1)\<rparr>) st;
                       signatureB64 = EncodeToString signature;
                       st2 = assign device (\<lambda>d. d\<lparr>LastSignature := signatureB64\<rparr>) st1;
                       (err, st3) = Update storage device st2
                   in case err of
                        Some e \<Rightarrow> (Inl (Wrapf ''failed to update device: '' e), st3)
                      | None \<Rightarrow>
                          (Inr \<lparr>Signature = signatureB64, SignedData = dataToBeSigned\<rparr>,
                           st3))))"

text \<open>
  \<^verbatim>\<open>SignData\<close> of src/domain/service.go (lines 77 to 108): the counter behind the
  pointer is incremented first, the payload is built from the incremented value.
\<close>

definition SignData_domain ::
  "DeviceStorage \<Rightarrow> primitives \<Rightarrow> entropy \<Rightarrow> string \<Rightarrow> string \<Rightarrow> Store
    \<Rightarrow> (error + SignDataResponse) \<times> Store" where
  "SignData_domain storage P rnd deviceID data st =
     (case GetDevice storage deviceID st of
        Inl err \<Rightarrow> (Inl (Wrapf ''failed to find device: '' err), st)
      | Inr device \<Rightarrow>
          (let st1 = assign device
                       (\<lambda>d. d\<lparr>SignatureCounter := int64 (SignatureCounter d + 1)\<rparr>) st;
               counter = SignatureCounter (heap st1 device);
               dataToBeSigned =
                 FormatInt counter @ ''_'' @ data @ ''_'' @ LastSignature (heap st1 device)
           in case Sign P rnd (Signer (heap st1 device)) dataToBeSigned of
                Inl err \<Rightarrow> (Inl (Wrapf ''failed to sign data: '' err), st1)
              | Inr signature \<Rightarrow>
                  (let signatureB64 = EncodeToString signature;
                       st2 = assign device (\<lambda>d. d\<lparr>LastSignature := signatureB64\<rparr>) st1;
                       (err, st3) = Update storage device st2
                   in case err of
                        Some e \<Rightarrow> (Inl (Wrapf ''failed to update device: '' e), st3)
                      | None \<Rightarrow>
                          (Inr \<lparr>Signature = signatureB64, SignedData = dataToBeSigned\<rparr>,
                           st3))))"

text \<open>The two pass-through reads of the service.\<close>

definition Service_GetDevice :: "DeviceStorage \<Rightarrow> string \<Rightarrow> Store \<Rightarrow> error + addr" where
  "Service_GetDevice storage ident st =
     (case GetDevice storage ident st of
        Inl err \<Rightarrow> Inl (Wrapf ''failed to get device: '' err)
      | Inr device \<Rightarrow> Inr device)"


section \<open>Observations, clients and a concrete run\<close>

text \<open>
  \<open>stored st ident\<close> is the record the storage holds for an identifier: the struct behind
  the pointer kept in the map.
\<close>

definition stored :: "Store \<Rightarrow> string \<Rightarrow> SignatureDevice option" where
  "stored st ident = map_option (heap st) (map_of (devices st) ident)"

text \<open>The struct literal of \<^verbatim>\<open>CreateDevice\<close>, as a value, for the statements below.\<close>

definition genesis :: "CreateDeviceOptions \<Rightarrow> bytes \<Rightarrow> bytes \<Rightarrow> Signer \<Rightarrow> SignatureDevice" where
  "genesis opts privateKey publicKey signer =
     \<lparr>ID = CreateDeviceOptions.ID opts,
      Label = CreateDeviceOptions.Label opts,
      Algorithm = CreateDeviceOptions.Algorithm opts,
      SignatureCounter = 0,
      LastSignature = EncodeToString (CreateDeviceOptions.ID opts),
      PublicKey = publicKey,
      PrivateKey = privateKey,
      Signer = signer\<rparr>"

text \<open>
  A client that calls \<^verbatim>\<open>SignData\<close> of part\_002 on one device once per element of a list,
  one call after the other, and collects the responses; it stops at the first error.
\<close>

fun SignAll ::
  "DeviceStorage \<Rightarrow> primitives \<Rightarrow> string \<Rightarrow> (entropy \<times> string) list \<Rightarrow> Store
    \<Rightarrow> (error + SignDataResponse list) \<times> Store" where
  "SignAll storage P ident [] st = (Inr [], st)"
| "SignAll storage P ident ((rnd, data) # calls) st =
     (case SignData storage P rnd \<lparr>DeviceID = ident, Data = data\<rparr> st of
        (Inl err, st1) \<Rightarrow> (Inl err, st1)
      | (Inr resp, st1) \<Rightarrow>
          (case SignAll storage P ident calls st1 of
             (Inl err, st2) \<Rightarrow> (Inl err, st2)
           | (Inr resps, st2) \<Rightarrow> (Inr (resp # resps), st2)))"

text \<open>
  \<open>chained k prev ds resps\<close>: the responses \<open>resps\<close> to the data \<open>ds\<close> form a chain
  that starts at counter \<open>k\<close> and previous signature \<open>prev\<close>: each signed payload is
  \<^verbatim>\<open>"{counter}_{data}_{previous signature}"\<close>, the counter grows by one and the previous
  signature of the next call is the signature this call returned.
\<close>

fun chained :: "int \<Rightarrow> string \<Rightarrow> string list \<Rightarrow> SignDataResponse list \<Rightarrow> bool" where
  "chained k prev [] [] = True"
| "chained k prev (data # ds) (resp # resps) =
     (SignedData resp = FormatInt k @ ''_'' @ data @ ''_'' @ prev \<and>
      chained (k + 1) (Signature resp) ds resps)"
| "chained k prev _ _ = False"

text \<open>The counter embedded in a signed payload: the text before the first underscore.\<close>

definition embedded_counter :: "string \<Rightarrow> string" where
  "embedded_counter payload = takeWhile (\<lambda>c. c \<noteq> CHR ''_'') payload"

text \<open>
  Stand-ins for the primitives, to run the model on concrete inputs: a signature is the
  random bytes the signer was given, and every primitive fails when it is given none.
\<close>

definition fixture_primitives :: primitives where
  "fixture_primitives =
     \<lparr>Sum256 = (\<lambda>m. m),
      SignPKCS1v15 = (\<lambda>rnd key digest. if rnd = [] then Inl (Errorf ''entropy exhausted'') else Inr rnd),
      SignASN1 = (\<lambda>rnd key digest. if rnd = [] then Inl (Errorf ''entropy exhausted'') else Inr rnd),
      RSAGenerator_Generate = (\<lambda>rnd. if rnd = [] then Inl (Errorf ''entropy exhausted'')
                                     else Inr \<lparr>Public = ''pub'', Private = ''priv''\<rparr>),
      ECCGenerator_Generate = (\<lambda>rnd. if rnd = [] then Inl (Errorf ''entropy exhausted'')
                                     else Inr \<lparr>Public = ''pub'', Private = ''priv''\<rparr>)\<rparr>"

text \<open>The options of the device \<^verbatim>\<open>d1\<close>, for a given algorithm.\<close>

definition d1_opts :: "string \<Rightarrow> CreateDeviceOptions" where
  "d1_opts alg = \<lparr>CreateDeviceOptions.ID = ''d1'', Label = ''L'', Algorithm = alg\<rparr>"

text \<open>
  The state after the device \<^verbatim>\<open>d1\<close> has been created in an empty storage, with the
  storage of either declaration.
\<close>

definition created :: Store where
  "created = snd (CreateDevice InMemoryStorage fixture_primitives ''k'' (d1_opts ''RSA'') NewInMemoryStorage)"

definition created_domain :: Store where
  "created_domain =
     snd (CreateDevice InMemoryStorage_domain fixture_primitives ''k'' (d1_opts ''RSA'') NewInMemoryStorage)"

section \<open>Basic facts\<close>

declare EncodeToString.simps [simp del]

lemma int64_id: "- (2 ^ 63) \<le> x \<Longrightarrow> x < 2 ^ 63 \<Longrightarrow> int64 x = x"
  unfolding int64_def by (simp add: mod_pos_pos_trivial)

lemma map_of_update: "map_of (AList.update k v al) = (map_of al)(k \<mapsto> v)"
  by (rule update_conv')

lemma base64_d1: "EncodeToString ''d1'' = ''ZDE=''"
  by (simp add: EncodeToString.simps enc6_def encodeStd_def)

lemma base64_s1: "EncodeToString ''s1'' = ''czE=''"
  by (simp add: EncodeToString.simps enc6_def encodeStd_def)

lemma base64_s2: "EncodeToString ''s2'' = ''czI=''"
  by (simp add: EncodeToString.simps enc6_def encodeStd_def)

lemma FormatInt_small: "FormatInt 0 = ''0''" "FormatInt 1 = ''1''" "FormatInt 2 = ''2''"
  by (simp_all add: FormatInt_def FormatUint.simps digit_def)

lemma int64_small: "int64 1 = 1" "int64 2 = 2"
  by (simp_all add: int64_def)

lemma digit_not_underscore: "n < 10 \<Longrightarrow> digit n \<noteq> CHR ''_''"
proof -
  assume "n < 10"
  then have "n \<in> {0, 1, 2, 3, 4, 5, 6, 7, 8, 9}" by auto
  then show ?thesis by (auto simp: digit_def)
qed

lemma FormatUint_no_underscore: "CHR ''_'' \<notin> set (FormatUint n)"
proof (induction n rule: FormatUint.induct)
  case (1 n)
  show ?case
  proof (cases "n < 10")
    case True
    then show ?thesis
      using digit_not_underscore [of n] by (subst FormatUint.simps) auto
  next
    case False
    have "n mod 10 < 10" by simp
    then have "digit (n mod 10) \<noteq> CHR ''_''" by (rule digit_not_underscore)
    with False 1 show ?thesis
      by (subst FormatUint.simps) auto
  qed
qed

lemma FormatInt_no_underscore: "CHR ''_'' \<notin> set (FormatInt i)"
  using FormatUint_no_underscore by (simp add: FormatInt_def)

lemma embedded_counter_payload:
  "embedded_counter (FormatInt k @ ''_'' @ rest) = FormatInt k"
proof -
  have "\<forall>c \<in> set (FormatInt k). c \<noteq> CHR ''_''"
    using FormatInt_no_underscore [of k] by auto
  then show ?thesis
    unfolding embedded_counter_def by (simp add: takeWhile_append2)
qed

lemma chained_counters:
  "chained k prev ds resps \<Longrightarrow>
   map (\<lambda>r. embedded_counter (SignedData r)) resps
     = map (\<lambda>i. FormatInt (k + int i)) [0..<length ds]"
proof (induction k prev ds resps rule: chained.induct)
  case (1 k prev)
  then show ?case by simp
next
  case (2 k prev data ds resp resps)
  then have hd: "embedded_counter (SignedData resp) = FormatInt k"
    using embedded_counter_payload [of k "data @ ''_'' @ prev"] by simp
  have tl: "map (\<lambda>r. embedded_counter (SignedData r)) resps
     = map (\<lambda>i. FormatInt (k + 1 + int i)) [0..<length ds]"
    using 2 by simp
  have "map (\<lambda>i. FormatInt (k + int i)) [0..<length (data # ds)]
     = FormatInt k # map (\<lambda>i. FormatInt (k + int (Suc i))) [0..<length ds]"
    by (simp add: upt_conv_Cons map_Suc_upt [symmetric] del: upt_Suc)
  also have "\<dots> = FormatInt k # map (\<lambda>i. FormatInt (k + 1 + int i)) [0..<length ds]"
    by (simp add: add.commute add.left_commute)
  finally show ?case using hd tl by simp
qed simp_all

lemma chained_length: "chained k prev ds resps \<Longrightarrow> length resps = length ds"
  by (induction k prev ds resps rule: chained.induct) simp_all

section \<open>One call of each operation on the in-memory storage\<close>

lemma SignData_unknown:
  "map_of (devices st) (DeviceID opts) = None \<Longrightarrow>
   SignData InMemoryStorage P rnd opts st =
     (Inl (Wrapf ''failed to find device: '' (Errorf ''device not found'')), st)"
  by (simp add: SignData_def InMemoryStorage_def InMemoryStorage_GetDevice_def)

lemma SignData_sign_fails:
  "map_of (devices st) (DeviceID opts) = Some a \<Longrightarrow>
   Sign P rnd (Signer (heap st a))
     (FormatInt (SignatureCounter (heap st a)) @ ''_'' @ Data opts @ ''_'' @
      LastSignature (heap st a)) = Inl err \<Longrightarrow>
   SignData InMemoryStorage P rnd opts st = (Inl (Wrapf ''failed to sign data: '' err), st)"
  by (simp add: SignData_def InMemoryStorage_def InMemoryStorage_GetDevice_def Let_def)

lemma SignData_ok:
  "map_of (devices st) (DeviceID opts) = Some a \<Longrightarrow>
   Sign P rnd (Signer (heap st a))
     (FormatInt (SignatureCounter (heap st a)) @ ''_'' @ Data opts @ ''_'' @
      LastSignature (heap st a)) = Inr sig \<Longrightarrow>
   SignData InMemoryStorage P rnd opts st =
     (Inr \<lparr>Signature = EncodeToString sig,
           SignedData = FormatInt (SignatureCounter (heap st a)) @ ''_'' @ Data opts @ ''_'' @
             LastSignature (heap st a)\<rparr>,
      st\<lparr>heap := (heap st)(a := (heap st a)
              \<lparr>SignatureCounter := int64 (SignatureCounter (heap st a) + 1),
               LastSignature := EncodeToString sig\<rparr>),
         devices := AList.update (SignatureDevice.ID (heap st a)) a (devices st)\<rparr>)"
  by (simp add: SignData_def InMemoryStorage_def InMemoryStorage_GetDevice_def Let_def
      InMemoryStorage_Update_def assign_def)

lemma SignData_domain_sign_fails:
  "map_of (devices st) deviceID = Some a \<Longrightarrow>
   Sign P rnd (Signer (heap st a))
     (FormatInt (int64 (SignatureCounter (heap st a) + 1)) @ ''_'' @ data @ ''_'' @
      LastSignature (heap st a)) = Inl err \<Longrightarrow>
   SignData_domain InMemoryStorage_domain P rnd deviceID data st =
     (Inl (Wrapf ''failed to sign data: '' err),
      st\<lparr>heap := (heap st)(a := (heap st a)
              \<lparr>SignatureCounter := int64 (SignatureCounter (heap st a) + 1)\<rparr>)\<rparr>)"
  by (simp add: SignData_domain_def InMemoryStorage_domain_def InMemoryStorage_GetDevice_def
      Let_def assign_def)

lemma SignData_domain_ok:
  "map_of (devices st) deviceID = Some a \<Longrightarrow>
   Sign P rnd (Signer (heap st a))
     (FormatInt (int64 (SignatureCounter (heap st a) + 1)) @ ''_'' @ data @ ''_'' @
      LastSignature (heap st a)) = Inr sig \<Longrightarrow>
   SignData_domain InMemoryStorage_domain P rnd deviceID data st =
     (Inr \<lparr>Signature = EncodeToString sig,
           SignedData = FormatInt (int64 (SignatureCounter (heap st a) + 1)) @ ''_'' @ data @
             ''_'' @ LastSignature (heap st a)\<rparr>,
      st\<lparr>heap := (heap st)(a := (heap st a)
              \<lparr>SignatureCounter := int64 (SignatureCounter (heap st a) + 1),
               LastSignature := EncodeToString sig\<rparr>),
         devices := AList.update (SignatureDevice.ID (heap st a)) a (devices st)\<rparr>)"
  by (simp add: SignData_domain_def InMemoryStorage_domain_def InMemoryStorage_GetDevice_def
      Let_def InMemoryStorage_Update_def assign_def)

lemma persist_InMemoryStorage:
  "persist InMemoryStorage opts privateKey publicKey signer st =
     (if map_of (devices st) (CreateDeviceOptions.ID opts) \<noteq> None
      then (Inl (Wrapf ''failed to save device: ''
                  (Errorf (''device '' @ CreateDeviceOptions.ID opts @ '' already exists''))),
            st\<lparr>heap := (heap st)(fresh st := genesis opts privateKey publicKey signer),
               fresh := Suc (fresh st)\<rparr>)
      else (Inr (fresh st),
            st\<lparr>heap := (heap st)(fresh st := genesis opts privateKey publicKey signer),
               fresh := Suc (fresh st),
               devices := AList.update (CreateDeviceOptions.ID opts) (fresh st) (devices st)\<rparr>))"
  by (simp add: persist_def new_def InMemoryStorage_def InMemoryStorage_Save_def genesis_def)

lemma persist_InMemoryStorage_domain:
  "persist InMemoryStorage_domain opts privateKey publicKey signer st =
     (Inr (fresh st),
      st\<lparr>heap := (heap st)(fresh st := genesis opts privateKey publicKey signer),
         fresh := Suc (fresh st),
         devices := AList.update (CreateDeviceOptions.ID opts) (fresh st) (devices st)\<rparr>)"
  by (simp add: persist_def new_def InMemoryStorage_domain_def InMemoryStorage_Save_domain_def
      genesis_def)

lemma persist_Inr:
  assumes "storage = InMemoryStorage \<or> storage = InMemoryStorage_domain"
    and "persist storage opts privateKey publicKey signer st = (Inr device, st')"
  shows "device = fresh st \<and> fresh st' = Suc (fresh st) \<and>
         heap st' = (heap st)(fresh st := genesis opts privateKey publicKey signer) \<and>
         devices st' = AList.update (CreateDeviceOptions.ID opts) (fresh st) (devices st)"
  using assms
  by (auto simp: persist_InMemoryStorage persist_InMemoryStorage_domain split: if_splits)

lemma CreateDevice_Inr:
  assumes "storage = InMemoryStorage \<or> storage = InMemoryStorage_domain"
    and "CreateDevice storage P rnd opts st = (Inr device, st')"
  shows "\<exists>privateKey publicKey signer.
           device = fresh st \<and> fresh st' = Suc (fresh st) \<and>
           heap st' = (heap st)(fresh st := genesis opts privateKey publicKey signer) \<and>
           devices st' = AList.update (CreateDeviceOptions.ID opts) (fresh st) (devices st)"
  using assms(2) persist_Inr [OF assms(1)]
  unfolding CreateDevice_def
  by (simp split: if_splits sum.splits) blast+

lemma CreateDevice_first_check:
  "CreateDeviceOptions.Algorithm opts \<noteq> ''RSA'' \<Longrightarrow> CreateDeviceOptions.Algorithm opts \<noteq> ''ECC'' \<Longrightarrow>
   CreateDevice storage P rnd opts st =
     (Inl (Errorf (''invalid algorithm: '' @ CreateDeviceOptions.Algorithm opts)), st)"
  by (simp add: CreateDevice_def)

lemma CreateDevice_errors:
  assumes "fst (CreateDevice InMemoryStorage P rnd opts st) = Inl e"
  shows "e = Errorf (''invalid algorithm: '' @ CreateDeviceOptions.Algorithm opts) \<or>
         (\<exists>err. e = Wrapf ''failed to generate RSA key pair: '' err) \<or>
         (\<exists>err. e = Wrapf ''failed to generate ECC key pair: '' err) \<or>
         e = Wrapf ''failed to save device: ''
               (Errorf (''device '' @ CreateDeviceOptions.ID opts @ '' already exists''))"
  using assms
  by (auto simp: CreateDevice_def persist_InMemoryStorage split: if_splits sum.splits)

lemma SignAll_chain:
  "map_of (devices st) ident = Some a \<Longrightarrow>
   0 \<le> SignatureCounter (heap st a) \<Longrightarrow>
   SignatureCounter (heap st a) + int (length calls) < 2 ^ 63 \<Longrightarrow>
   SignAll InMemoryStorage P ident calls st = (Inr resps, st') \<Longrightarrow>
   chained (SignatureCounter (heap st a)) (LastSignature (heap st a)) (map snd calls) resps \<and>
   SignatureCounter (heap st' a) = SignatureCounter (heap st a) + int (length calls) \<and>
   LastSignature (heap st' a) =
     (if resps = [] then LastSignature (heap st a) else Signature (last resps)) \<and>
   map_of (devices st') ident = Some a"
proof (induction calls arbitrary: st resps)
  case Nil
  then show ?case by simp
next
  case (Cons call calls)
  obtain rnd data where call: "call = (rnd, data)" by (cases call)
  let ?opts = "\<lparr>DeviceID = ident, Data = data\<rparr>"
  let ?c = "SignatureCounter (heap st a)"
  let ?payload = "FormatInt ?c @ ''_'' @ data @ ''_'' @ LastSignature (heap st a)"
  have found: "map_of (devices st) (DeviceID ?opts) = Some a"
    using Cons.prems(1) by simp
  show ?case
  proof (cases "Sign P rnd (Signer (heap st a)) ?payload")
    case (Inl err)
    have "SignData InMemoryStorage P rnd ?opts st = (Inl (Wrapf ''failed to sign data: '' err), st)"
      using SignData_sign_fails [OF found] Inl by simp
    with Cons.prems(4) call show ?thesis by simp
  next
    case (Inr sig)
    let ?st1 = "st\<lparr>heap := (heap st)(a := (heap st a)
              \<lparr>SignatureCounter := int64 (?c + 1),
               LastSignature := EncodeToString sig\<rparr>),
         devices := AList.update (SignatureDevice.ID (heap st a)) a (devices st)\<rparr>"
    let ?resp = "\<lparr>Signature = EncodeToString sig, SignedData = ?payload\<rparr>"
    have step: "SignData InMemoryStorage P rnd ?opts st = (Inr ?resp, ?st1)"
      using SignData_ok [OF found] Inr by simp
    have wrap: "int64 (?c + 1) = ?c + 1"
      using Cons.prems(2,3) by (intro int64_id) simp_all
    obtain resps1 where rest: "SignAll InMemoryStorage P ident calls ?st1 = (Inr resps1, st')"
      and resps: "resps = ?resp # resps1"
      using Cons.prems(4) call step by (auto split: prod.splits sum.splits)
    have found1: "map_of (devices ?st1) ident = Some a"
      using Cons.prems(1) by (simp add: map_of_update)
    have c1: "SignatureCounter (heap ?st1 a) = ?c + 1"
      using wrap by simp
    have l1: "LastSignature (heap ?st1 a) = EncodeToString sig"
      by simp
    have ih: "chained (?c + 1) (EncodeToString sig) (map snd calls) resps1 \<and>
       SignatureCounter (heap st' a) = ?c + 1 + int (length calls) \<and>
       LastSignature (heap st' a) =
         (if resps1 = [] then EncodeToString sig else Signature (last resps1)) \<and>
       map_of (devices st') ident = Some a"
      using Cons.IH [OF found1 _ _ rest] Cons.prems(2,3) c1 l1 by simp
    then show ?thesis
      using resps call by simp
  qed
qed

section \<open>The concrete run\<close>

lemma genesis_d1:
  "genesis (d1_opts alg) privateKey publicKey signer =
     \<lparr>ID = ''d1'', Label = ''L'', Algorithm = alg, SignatureCounter = 0,
      LastSignature = ''ZDE='', PublicKey = publicKey, PrivateKey = privateKey, Signer = signer\<rparr>"
  by (simp add: genesis_def d1_opts_def base64_d1)

lemma created_run:
  "CreateDevice InMemoryStorage fixture_primitives ''k'' (d1_opts ''RSA'') NewInMemoryStorage
     = (Inr 0, created)"
  by (simp add: created_def CreateDevice_def persist_InMemoryStorage d1_opts_def
      fixture_primitives_def NewInMemoryStorage_def)

lemma created_facts:
  "devices created = [(''d1'', 0)]"
  "fresh created = 1"
  "heap created 0 = genesis (d1_opts ''RSA'') ''priv'' ''pub'' (RSASigner ''priv'')"
  by (simp_all add: created_def CreateDevice_def persist_InMemoryStorage d1_opts_def
      fixture_primitives_def NewInMemoryStorage_def NewRSASigner_def)


lemma created_domain_facts:
  "devices created_domain = [(''d1'', 0)]"
  "fresh created_domain = 1"
  "heap created_domain 0 = genesis (d1_opts ''RSA'') ''priv'' ''pub'' (RSASigner ''priv'')"
  by (simp_all add: created_domain_def CreateDevice_def persist_InMemoryStorage_domain d1_opts_def
      fixture_primitives_def NewInMemoryStorage_def NewRSASigner_def)

lemma first_call:
  "SignData InMemoryStorage fixture_primitives ''s1'' \<lparr>DeviceID = ''d1'', Data = ''tx1''\<rparr> created =
     (Inr \<lparr>Signature = ''czE='', SignedData = ''0_tx1_ZDE=''\<rparr>,
      created\<lparr>heap := (heap created)(0 := (heap created 0)
              \<lparr>SignatureCounter := 1, LastSignature := ''czE=''\<rparr>),
         devices := [(''d1'', 0)]\<rparr>)"
  by (subst SignData_ok [where a = 0 and sig = "''s1''"])
     (simp_all add: created_facts genesis_d1 fixture_primitives_def int64_small
       FormatInt_small base64_s1)

lemma second_call:
  "SignData InMemoryStorage fixture_primitives ''s2'' \<lparr>DeviceID = ''d1'', Data = ''tx2''\<rparr>
     (created\<lparr>heap := (heap created)(0 := (heap created 0)
              \<lparr>SignatureCounter := 1, LastSignature := ''czE=''\<rparr>),
         devices := [(''d1'', 0)]\<rparr>) =
     (Inr \<lparr>Signature = ''czI='', SignedData = ''1_tx2_czE=''\<rparr>,
      created\<lparr>heap := (heap created)(0 := (heap created 0)
              \<lparr>SignatureCounter := 2, LastSignature := ''czI=''\<rparr>),
         devices := [(''d1'', 0)]\<rparr>)"
  by (subst SignData_ok [where a = 0 and sig = "''s2''"])
     (simp_all add: created_facts genesis_d1 fixture_primitives_def int64_small
       FormatInt_small base64_s2)

lemma two_calls:
  "SignAll InMemoryStorage fixture_primitives ''d1'' [(''s1'', ''tx1''), (''s2'', ''tx2'')] created =
     (Inr [\<lparr>Signature = ''czE='', SignedData = ''0_tx1_ZDE=''\<rparr>,
           \<lparr>Signature = ''czI='', SignedData = ''1_tx2_czE=''\<rparr>],
      created\<lparr>heap := (heap created)(0 := (heap created 0)
              \<lparr>SignatureCounter := 2, LastSignature := ''czI=''\<rparr>),
         devices := [(''d1'', 0)]\<rparr>)"
  by (simp add: first_call second_call)

lemma domain_first:
  "SignData_domain InMemoryStorage_domain fixture_primitives ''s1'' ''d1'' ''tx1'' created_domain =
     (Inr \<lparr>Signature = ''czE='', SignedData = ''1_tx1_ZDE=''\<rparr>,
      created_domain\<lparr>heap := (heap created_domain)(0 := (heap created_domain 0)
              \<lparr>SignatureCounter := 1, LastSignature := ''czE=''\<rparr>),
         devices := [(''d1'', 0)]\<rparr>)"
  by (subst SignData_domain_ok [where a = 0 and sig = "''s1''"])
     (simp_all add: created_domain_facts genesis_d1 fixture_primitives_def int64_small
       FormatInt_small base64_s1)

section \<open>Signing: counters, chaining, failures\<close>

text \<open>
  C1: for N sequential successful calls of signData on a device, the payload of each call
  is built with the counter before the increment, so the counters in the N signed payloads
  are 0, 1, ..., N-1 in call order, and the stored counter is N afterwards.

  \<^verbatim>\<open>SignData\<close> of src/domain/service.go increments the counter before it formats the
  payload (lines 86 to 89). Run on the device \<^verbatim>\<open>d1\<close> right after its creation, the first
  call signs \<^verbatim>\<open>1_tx1_ZDE=\<close> and the second \<^verbatim>\<open>2_tx2_czE=\<close>: the counters in the payloads
  are 1 and 2, where the property has 0 and 1; the stored counter is 2 afterwards.
  \<^verbatim>\<open>SignData\<close> of src/unnamed/part\_002 has the property: \<open>SignAll_counters\<close> below.
\<close>

theorem SignData_domain_counters:
  "fst (SignData_domain InMemoryStorage_domain fixture_primitives ''s1'' ''d1'' ''tx1'' created_domain)
     = Inr \<lparr>Signature = ''czE='', SignedData = ''1_tx1_ZDE=''\<rparr> \<and>
   fst (SignData_domain InMemoryStorage_domain fixture_primitives ''s2'' ''d1'' ''tx2''
         (snd (SignData_domain InMemoryStorage_domain fixture_primitives ''s1'' ''d1'' ''tx1''
                created_domain)))
     = Inr \<lparr>Signature = ''czI='', SignedData = ''2_tx2_czE=''\<rparr> \<and>
   SignatureCounter (heap (snd (SignData_domain InMemoryStorage_domain fixture_primitives ''s2'' ''d1'' ''tx2''
         (snd (SignData_domain InMemoryStorage_domain fixture_primitives ''s1'' ''d1'' ''tx1''
                created_domain)))) 0) = 2"
proof -
  let ?st1 = "created_domain\<lparr>heap := (heap created_domain)(0 := (heap created_domain 0)
              \<lparr>SignatureCounter := 1, LastSignature := ''czE=''\<rparr>),
         devices := [(''d1'', 0)]\<rparr>"
  have second:
    "SignData_domain InMemoryStorage_domain fixture_primitives ''s2'' ''d1'' ''tx2'' ?st1 =
       (Inr \<lparr>Signature = ''czI='', SignedData = ''2_tx2_czE=''\<rparr>,
        ?st1\<lparr>heap := (heap ?st1)(0 := (heap ?st1 0)
              \<lparr>SignatureCounter := 2, LastSignature := ''czI=''\<rparr>),
         devices := [(''d1'', 0)]\<rparr>)"
    by (subst SignData_domain_ok [where a = 0 and sig = "''s2''"])
       (simp_all add: created_domain_facts genesis_d1 fixture_primitives_def int64_small
         FormatInt_small base64_s2)
  show ?thesis
    by (simp add: domain_first second)
qed

text \<open>
  The property of C1 for \<^verbatim>\<open>SignData\<close> of src/unnamed/part\_002, on a device whose counter
  is 0, for every number of calls below \<open>2 ^ 63\<close> (where the 64-bit counter would wrap).
\<close>

theorem SignAll_counters:
  assumes "map_of (devices st) ident = Some a"
    and "SignatureCounter (heap st a) = 0"
    and "int (length calls) < 2 ^ 63"
    and "SignAll InMemoryStorage P ident calls st = (Inr resps, st')"
  shows "length resps = length calls \<and>
         map (\<lambda>r. embedded_counter (SignedData r)) resps
           = map (\<lambda>i. FormatInt (int i)) [0..<length calls] \<and>
         SignatureCounter (heap st' a) = int (length calls)"
proof -
  have ch: "chained 0 (LastSignature (heap st a)) (map snd calls) resps"
    and cnt: "SignatureCounter (heap st' a) = int (length calls)"
    using SignAll_chain [OF assms(1) _ _ assms(4)] assms(2,3) by simp_all
  show ?thesis
    using chained_counters [OF ch] chained_length [OF ch] cnt by simp
qed

theorem SignAll_counters_witness:
  "length [\<lparr>Signature = ''czE='', SignedData = ''0_tx1_ZDE=''\<rparr>,
           \<lparr>Signature = ''czI='', SignedData = ''1_tx2_czE=''\<rparr>] = 2 \<and>
   map (\<lambda>r. embedded_counter (SignedData r))
     [\<lparr>Signature = ''czE='', SignedData = ''0_tx1_ZDE=''\<rparr>,
      \<lparr>Signature = ''czI='', SignedData = ''1_tx2_czE=''\<rparr>] = [FormatInt 0, FormatInt 1] \<and>
   SignatureCounter (heap (snd (SignAll InMemoryStorage fixture_primitives ''d1''
     [(''s1'', ''tx1''), (''s2'', ''tx2'')] created)) 0) = 2"
proof -
  have found: "map_of (devices created) ''d1'' = Some 0"
    by (simp add: created_facts)
  have zero: "SignatureCounter (heap created 0) = 0"
    by (simp add: created_facts genesis_d1)
  have few: "int (length [(''s1'', ''tx1''), (''s2'', ''tx2'')]) < 2 ^ 63"
    by simp
  have "[0..<2] = [0, 1]"
    by (simp add: upt_conv_Cons)
  then show ?thesis
    using SignAll_counters [OF found zero few two_calls] two_calls by simp
qed

text \<open>
  C2: the signed payload of call k (counted from 0) is \<^verbatim>\<open>"{k}_{data}_{previous}"\<close>, where
  \<^verbatim>\<open>previous\<close> is the base64 signature call k-1 returned, or the base64 of the device
  identifier for k = 0; after the call the stored last signature is the signature returned.

  \<^verbatim>\<open>SignData\<close> of src/domain/service.go, first call (k = 0) on the device \<^verbatim>\<open>d1\<close> with data
  \<^verbatim>\<open>tx1\<close>: the payload is \<^verbatim>\<open>1_tx1_\<close> followed by the base64 of \<^verbatim>\<open>d1\<close>, which is not the
  payload \<^verbatim>\<open>0_tx1_...\<close> of the property. The previous signature in the payload and the
  stored last signature are as the property says. \<^verbatim>\<open>SignData\<close> of src/unnamed/part\_002
  has the property: \<open>SignAll_chaining\<close> below.
\<close>

theorem SignData_domain_first_payload:
  "fst (SignData_domain InMemoryStorage_domain fixture_primitives ''s1'' ''d1'' ''tx1'' created_domain)
     = Inr \<lparr>Signature = ''czE='', SignedData = ''1_tx1_'' @ EncodeToString ''d1''\<rparr> \<and>
   ''1_tx1_'' @ EncodeToString ''d1'' \<noteq> FormatInt 0 @ ''_'' @ ''tx1'' @ ''_'' @ EncodeToString ''d1'' \<and>
   LastSignature (heap (snd (SignData_domain InMemoryStorage_domain fixture_primitives ''s1'' ''d1'' ''tx1''
      created_domain)) 0) = ''czE=''"
  by (simp add: domain_first base64_d1 FormatInt_small)

text \<open>
  The property of C2 for \<^verbatim>\<open>SignData\<close> of src/unnamed/part\_002: the responses form a chain
  from counter 0 and the stored last signature, and the stored last signature afterwards
  is the signature of the last response.
\<close>

theorem SignAll_chaining:
  assumes "map_of (devices st) ident = Some a"
    and "SignatureCounter (heap st a) = 0"
    and "int (length calls) < 2 ^ 63"
    and "SignAll InMemoryStorage P ident calls st = (Inr resps, st')"
  shows "chained 0 (LastSignature (heap st a)) (map snd calls) resps \<and>
         LastSignature (heap st' a) =
           (if resps = [] then LastSignature (heap st a) else Signature (last resps))"
  using SignAll_chain [OF assms(1) _ _ assms(4)] assms(2,3) by simp

theorem SignAll_chaining_witness:
  "chained 0 ''ZDE='' [''tx1'', ''tx2'']
     [\<lparr>Signature = ''czE='', SignedData = ''0_tx1_ZDE=''\<rparr>,
      \<lparr>Signature = ''czI='', SignedData = ''1_tx2_czE=''\<rparr>] \<and>
   LastSignature (heap (snd (SignAll InMemoryStorage fixture_primitives ''d1''
     [(''s1'', ''tx1''), (''s2'', ''tx2'')] created)) 0) = ''czI=''"
proof -
  have found: "map_of (devices created) ''d1'' = Some 0"
    by (simp add: created_facts)
  have zero: "SignatureCounter (heap created 0) = 0"
    by (simp add: created_facts genesis_d1)
  have few: "int (length [(''s1'', ''tx1''), (''s2'', ''tx2'')]) < 2 ^ 63"
    by simp
  show ?thesis
    using SignAll_chaining [OF found zero few two_calls] two_calls
    by (simp add: created_facts genesis_d1)
qed

text \<open>
  C3: when the signer fails, signData fails with the signing error and the stored counter
  and last signature are what they were before the call.

  \<^verbatim>\<open>SignData\<close> of src/domain/service.go has already incremented the counter through the
  pointer the storage holds when it calls the signer (line 86), and returns on the error
  without undoing it: on the device \<^verbatim>\<open>d1\<close> with a failing signer the call returns
  \<^verbatim>\<open>failed to sign data: ...\<close> and the stored counter has gone from 0 to 1.
  \<^verbatim>\<open>SignData\<close> of src/unnamed/part\_002 has the property:
  \<open>SignData_failed_sign_no_mutation\<close> below.
\<close>

theorem SignData_domain_failed_sign_advances:
  "fst (SignData_domain InMemoryStorage_domain fixture_primitives [] ''d1'' ''tx1'' created_domain)
     = Inl (Wrapf ''failed to sign data: '' (Errorf ''entropy exhausted'')) \<and>
   SignatureCounter (heap created_domain 0) = 0 \<and>
   SignatureCounter (heap (snd (SignData_domain InMemoryStorage_domain fixture_primitives [] ''d1''
      ''tx1'' created_domain)) 0) = 1 \<and>
   stored (snd (SignData_domain InMemoryStorage_domain fixture_primitives [] ''d1'' ''tx1''
      created_domain)) ''d1'' \<noteq> stored created_domain ''d1''"
proof -
  have run:
    "SignData_domain InMemoryStorage_domain fixture_primitives [] ''d1'' ''tx1'' created_domain =
       (Inl (Wrapf ''failed to sign data: '' (Errorf ''entropy exhausted'')),
        created_domain\<lparr>heap := (heap created_domain)(0 := (heap created_domain 0)
              \<lparr>SignatureCounter := 1\<rparr>)\<rparr>)"
    by (subst SignData_domain_sign_fails [where a = 0 and err = "Errorf ''entropy exhausted''"])
       (simp_all add: created_domain_facts genesis_d1 fixture_primitives_def int64_small)
  show ?thesis
    by (simp add: run stored_def created_domain_facts genesis_d1)
qed

text \<open>
  The property of C3 for \<^verbatim>\<open>SignData\<close> of src/unnamed/part\_002: the state returned with the
  signing error is the state the call started from.
\<close>

theorem SignData_failed_sign_no_mutation:
  assumes "map_of (devices st) (DeviceID opts) = Some a"
    and "Sign P rnd (Signer (heap st a))
           (FormatInt (SignatureCounter (heap st a)) @ ''_'' @ Data opts @ ''_'' @
            LastSignature (heap st a)) = Inl err"
  shows "SignData InMemoryStorage P rnd opts st = (Inl (Wrapf ''failed to sign data: '' err), st)"
  using SignData_sign_fails [OF assms] .

theorem SignData_failed_sign_no_mutation_witness:
  "SignData InMemoryStorage fixture_primitives [] \<lparr>DeviceID = ''d1'', Data = ''tx1''\<rparr> created =
     (Inl (Wrapf ''failed to sign data: '' (Errorf ''entropy exhausted'')), created)"
proof -
  have found: "map_of (devices created) (DeviceID \<lparr>DeviceID = ''d1'', Data = ''tx1''\<rparr>) = Some 0"
    by (simp add: created_facts)
  have fails: "Sign fixture_primitives [] (Signer (heap created 0))
           (FormatInt (SignatureCounter (heap created 0)) @ ''_'' @
            Data \<lparr>DeviceID = ''d1'', Data = ''tx1''\<rparr> @ ''_'' @
            LastSignature (heap created 0)) = Inl (Errorf ''entropy exhausted'')"
    by (simp add: created_facts genesis_d1 fixture_primitives_def)
  show ?thesis
    using SignData_failed_sign_no_mutation [OF found fails] .
qed

section \<open>Creating devices\<close>




text \<open>
  What the second declaration of \<^verbatim>\<open>Save\<close> does instead: createDevice succeeds whether or
  not the identifier is present, and the storage holds the new device under it.
\<close>

theorem CreateDevice_domain_overwrites:
  assumes "CreateDeviceOptions.Algorithm opts = ''RSA'' \<and> RSAGenerator_Generate P rnd = Inr keyPair \<or>
           CreateDeviceOptions.Algorithm opts = ''ECC'' \<and> ECCGenerator_Generate P rnd = Inr keyPair"
  shows "fst (CreateDevice InMemoryStorage_domain P rnd opts st) = Inr (fresh st) \<and>
         stored (snd (CreateDevice InMemoryStorage_domain P rnd opts st)) (CreateDeviceOptions.ID opts) =
           Some (genesis opts (Private keyPair) (Public keyPair)
                  (if CreateDeviceOptions.Algorithm opts = ''RSA'' then RSASigner (Private keyPair)
                   else ECDSASigner (Private keyPair)))"
proof -
  have run: "CreateDevice InMemoryStorage_domain P rnd opts st =
     (Inr (fresh st),
      st\<lparr>heap := (heap st)(fresh st := genesis opts (Private keyPair) (Public keyPair)
                  (if CreateDeviceOptions.Algorithm opts = ''RSA'' then RSASigner (Private keyPair)
                   else ECDSASigner (Private keyPair))),
         fresh := Suc (fresh st),
         devices := AList.update (CreateDeviceOptions.ID opts) (fresh st) (devices st)\<rparr>)"
    using assms
    by (auto simp: CreateDevice_def persist_InMemoryStorage_domain NewRSASigner_def
        NewECDSASigner_def)
  show ?thesis
    by (simp add: run stored_def map_of_update)
qed

theorem CreateDevice_domain_overwrites_witness:
  "stored created_domain ''d1'' = Some (genesis (d1_opts ''RSA'') ''priv'' ''pub'' (RSASigner ''priv'')) \<and>
   fst (CreateDevice InMemoryStorage_domain fixture_primitives ''k2'' (d1_opts ''ECC'') created_domain)
     = Inr 1 \<and>
   stored (snd (CreateDevice InMemoryStorage_domain fixture_primitives ''k2'' (d1_opts ''ECC'')
      created_domain)) ''d1'' = Some (genesis (d1_opts ''ECC'') ''priv'' ''pub'' (ECDSASigner ''priv''))"
proof -
  have gen: "CreateDeviceOptions.Algorithm (d1_opts ''ECC'') = ''RSA'' \<and>
      RSAGenerator_Generate fixture_primitives ''k2'' = Inr \<lparr>Public = ''pub'', Private = ''priv''\<rparr> \<or>
    CreateDeviceOptions.Algorithm (d1_opts ''ECC'') = ''ECC'' \<and>
      ECCGenerator_Generate fixture_primitives ''k2'' = Inr \<lparr>Public = ''pub'', Private = ''priv''\<rparr>"
    by (simp add: fixture_primitives_def d1_opts_def)
  have before: "stored created_domain ''d1'' =
      Some (genesis (d1_opts ''RSA'') ''priv'' ''pub'' (RSASigner ''priv''))"
    by (simp add: stored_def created_domain_facts)
  show ?thesis
    using CreateDevice_domain_overwrites [OF gen, of created_domain] before
    by (simp add: created_domain_facts d1_opts_def)
qed

text \<open>
  C5: every createDevice call with an algorithm among RSA and ECC that succeeds yields a
  device whose counter is 0 and whose last signature is the base64 of its identifier; the
  storage holds that device under the identifier. This holds with either declaration of
  the storage.
\<close>

theorem CreateDevice_genesis:
  assumes "storage = InMemoryStorage \<or> storage = InMemoryStorage_domain"
    and "CreateDevice storage P rnd opts st = (Inr device, st')"
  shows "SignatureCounter (heap st' device) = 0 \<and>
         LastSignature (heap st' device) = EncodeToString (CreateDeviceOptions.ID opts) \<and>
         stored st' (CreateDeviceOptions.ID opts) = Some (heap st' device)"
  using CreateDevice_Inr [OF assms]
  by (auto simp: genesis_def stored_def map_of_update)

theorem CreateDevice_genesis_witness:
  "CreateDevice InMemoryStorage fixture_primitives ''k'' (d1_opts ''RSA'') NewInMemoryStorage
     = (Inr 0, created) \<and>
   SignatureCounter (heap created 0) = 0 \<and>
   LastSignature (heap created 0) = EncodeToString ''d1'' \<and>
   stored created ''d1'' = Some (heap created 0)"
  using CreateDevice_genesis [OF _ created_run] created_run
  by (simp add: d1_opts_def)

text \<open>
  C7: a createDevice call whose algorithm is neither \<^verbatim>\<open>RSA\<close> nor \<^verbatim>\<open>ECC\<close> fails with
  \<^verbatim>\<open>invalid algorithm: <algorithm>\<close>. The result is the same for every storage, for every
  behaviour of the key generators and for every content of the random source, and the
  state returned is the state before: no generator output is used, nothing is allocated
  and nothing is saved.
\<close>

theorem CreateDevice_invalid_algorithm:
  assumes "CreateDeviceOptions.Algorithm opts \<noteq> ''RSA''"
    and "CreateDeviceOptions.Algorithm opts \<noteq> ''ECC''"
  shows "CreateDevice storage P rnd opts st =
     (Inl (Errorf (''invalid algorithm: '' @ CreateDeviceOptions.Algorithm opts)), st)"
  using assms by (rule CreateDevice_first_check)

theorem CreateDevice_invalid_algorithm_witness:
  "CreateDevice InMemoryStorage fixture_primitives ''k'' (d1_opts ''DSA'') NewInMemoryStorage =
     (Inl (Errorf ''invalid algorithm: DSA''), NewInMemoryStorage)"
  using CreateDevice_invalid_algorithm
    [of "d1_opts ''DSA''" InMemoryStorage fixture_primitives "''k''" NewInMemoryStorage]
  by (simp add: d1_opts_def)

text \<open>
  C10: createDevice checks neither the identifier nor the label. With an algorithm among
  RSA and ECC, a key generation that succeeds and an identifier the storage does not hold
  (so that \<^verbatim>\<open>Save\<close> succeeds), the call succeeds for every identifier and label, and the
  storage then holds the device built from them; for the empty identifier the last
  signature of the new device is the empty string. The only errors createDevice returns
  are the invalid-algorithm error, the two key-generation errors and the save error.
\<close>

theorem CreateDevice_no_input_validation:
  assumes "CreateDeviceOptions.Algorithm opts = ''RSA'' \<and> RSAGenerator_Generate P rnd = Inr keyPair \<or>
           CreateDeviceOptions.Algorithm opts = ''ECC'' \<and> ECCGenerator_Generate P rnd = Inr keyPair"
    and "map_of (devices st) (CreateDeviceOptions.ID opts) = None"
  shows "fst (CreateDevice InMemoryStorage P rnd opts st) = Inr (fresh st) \<and>
         stored (snd (CreateDevice InMemoryStorage P rnd opts st)) (CreateDeviceOptions.ID opts) =
           Some (genesis opts (Private keyPair) (Public keyPair)
                  (if CreateDeviceOptions.Algorithm opts = ''RSA'' then RSASigner (Private keyPair)
                   else ECDSASigner (Private keyPair))) \<and>
         (CreateDeviceOptions.ID opts = [] \<longrightarrow>
            LastSignature (heap (snd (CreateDevice InMemoryStorage P rnd opts st)) (fresh st)) = []) \<and>
         (\<forall>P' rnd' opts' st' e. fst (CreateDevice InMemoryStorage P' rnd' opts' st') = Inl e \<longrightarrow>
            e = Errorf (''invalid algorithm: '' @ CreateDeviceOptions.Algorithm opts') \<or>
            (\<exists>err. e = Wrapf ''failed to generate RSA key pair: '' err) \<or>
            (\<exists>err. e = Wrapf ''failed to generate ECC key pair: '' err) \<or>
            e = Wrapf ''failed to save device: ''
                  (Errorf (''device '' @ CreateDeviceOptions.ID opts' @ '' already exists'')))"
proof -
  have run: "CreateDevice InMemoryStorage P rnd opts st =
     (Inr (fresh st),
      st\<lparr>heap := (heap st)(fresh st := genesis opts (Private keyPair) (Public keyPair)
                  (if CreateDeviceOptions.Algorithm opts = ''RSA'' then RSASigner (Private keyPair)
                   else ECDSASigner (Private keyPair))),
         fresh := Suc (fresh st),
         devices := AList.update (CreateDeviceOptions.ID opts) (fresh st) (devices st)\<rparr>)"
    using assms
    by (auto simp: CreateDevice_def persist_InMemoryStorage NewRSASigner_def NewECDSASigner_def)
  have empty: "EncodeToString [] = []"
    by (simp add: EncodeToString.simps)
  show ?thesis
    using CreateDevice_errors
    by (simp add: run stored_def map_of_update genesis_def empty)
qed

theorem CreateDevice_no_input_validation_witness:
  "fst (CreateDevice InMemoryStorage fixture_primitives ''k''
         \<lparr>CreateDeviceOptions.ID = [], Label = [], Algorithm = ''ECC''\<rparr> NewInMemoryStorage) = Inr 0 \<and>
   LastSignature (heap (snd (CreateDevice InMemoryStorage fixture_primitives ''k''
         \<lparr>CreateDeviceOptions.ID = [], Label = [], Algorithm = ''ECC''\<rparr> NewInMemoryStorage)) 0) = []"
proof -
  have gen: "CreateDeviceOptions.Algorithm \<lparr>CreateDeviceOptions.ID = [], Label = [], Algorithm = ''ECC''\<rparr> = ''RSA'' \<and>
      RSAGenerator_Generate fixture_primitives ''k'' = Inr \<lparr>Public = ''pub'', Private = ''priv''\<rparr> \<or>
    CreateDeviceOptions.Algorithm \<lparr>CreateDeviceOptions.ID = [], Label = [], Algorithm = ''ECC''\<rparr> = ''ECC'' \<and>
      ECCGenerator_Generate fixture_primitives ''k'' = Inr \<lparr>Public = ''pub'', Private = ''priv''\<rparr>"
    by (simp add: fixture_primitives_def)
  have absent: "map_of (devices NewInMemoryStorage)
      (CreateDeviceOptions.ID \<lparr>CreateDeviceOptions.ID = [], Label = [], Algorithm = ''ECC''\<rparr>) = None"
    by (simp add: NewInMemoryStorage_def)
  have "fresh NewInMemoryStorage = 0"
    by (simp add: NewInMemoryStorage_def)
  then show ?thesis
    using CreateDevice_no_input_validation [OF gen absent] by simp
qed

section \<open>Reading devices\<close>

text \<open>
  C8: for an identifier the storage does not hold, \<^verbatim>\<open>GetDevice\<close> of the storage fails with
  \<^verbatim>\<open>device not found\<close>, the service's \<^verbatim>\<open>GetDevice\<close> and \<^verbatim>\<open>SignData\<close> (of either file) fail
  with that error wrapped, and the state after \<^verbatim>\<open>SignData\<close> is the state before; the two
  reads return no state at all.
\<close>

theorem unknown_device:
  assumes "map_of (devices st) ident = None"
  shows "GetDevice InMemoryStorage ident st = Inl (Errorf ''device not found'') \<and>
         Service_GetDevice InMemoryStorage ident st =
           Inl (Wrapf ''failed to get device: '' (Errorf ''device not found'')) \<and>
         SignData InMemoryStorage P rnd \<lparr>DeviceID = ident, Data = data\<rparr> st =
           (Inl (Wrapf ''failed to find device: '' (Errorf ''device not found'')), st) \<and>
         SignData_domain InMemoryStorage_domain P rnd ident data st =
           (Inl (Wrapf ''failed to find device: '' (Errorf ''device not found'')), st)"
proof -
  have "GetDevice InMemoryStorage ident st = Inl (Errorf ''device not found'')"
    using assms by (simp add: InMemoryStorage_def InMemoryStorage_GetDevice_def)
  moreover have "Service_GetDevice InMemoryStorage ident st =
           Inl (Wrapf ''failed to get device: '' (Errorf ''device not found''))"
    using assms by (simp add: Service_GetDevice_def InMemoryStorage_def InMemoryStorage_GetDevice_def)
  moreover have "SignData InMemoryStorage P rnd \<lparr>DeviceID = ident, Data = data\<rparr> st =
           (Inl (Wrapf ''failed to find device: '' (Errorf ''device not found'')), st)"
    using assms by (simp add: SignData_unknown)
  moreover have "SignData_domain InMemoryStorage_domain P rnd ident data st =
           (Inl (Wrapf ''failed to find device: '' (Errorf ''device not found'')), st)"
    using assms
    by (simp add: SignData_domain_def InMemoryStorage_domain_def InMemoryStorage_GetDevice_def)
  ultimately show ?thesis by simp
qed

theorem unknown_device_witness:
  "map_of (devices created) ''d2'' = None \<and>
   GetDevice InMemoryStorage ''d2'' created = Inl (Errorf ''device not found'') \<and>
   SignData InMemoryStorage fixture_primitives ''s1'' \<lparr>DeviceID = ''d2'', Data = ''tx1''\<rparr> created =
     (Inl (Wrapf ''failed to find device: '' (Errorf ''device not found'')), created)"
proof -
  have absent: "map_of (devices created) ''d2'' = None"
    by (simp add: created_facts)
  show ?thesis
    using unknown_device [OF absent, of fixture_primitives "''s1''" "''tx1''"] absent by simp
qed




end
